theory Spec2Isabelle
  imports Main "HOL-Library.Multiset"
begin

section \<open>The store: tables of the ride-sharing service\<close>

text \<open>
  The backend keeps its state in PostgreSQL tables (\<^verbatim>\<open>database/routes-init.js\<close>) and
  reaches them through the model classes \<^verbatim>\<open>Trip\<close>, \<^verbatim>\<open>TripRequest\<close> and
  \<^verbatim>\<open>StopPoint\<close>. A table is a list of rows, a row is a record of the columns the
  operations below read or write. Identifiers are natural numbers, timestamps are
  integers (milliseconds), and \<^verbatim>\<open>DECIMAL(8, 2)\<close> prices are integers counting
  hundredths. The columns \<^verbatim>\<open>title\<close>, \<^verbatim>\<open>description\<close>, \<^verbatim>\<open>arrival_time\<close>,
  \<^verbatim>\<open>currency\<close>, \<^verbatim>\<open>pickup_time\<close>, \<^verbatim>\<open>dropoff_time\<close> and the coordinates and
  timestamps of stops and trips are not read by any operation modelled here and are
  left out of the rows.
\<close>

datatype request_status = Pending | Approved | Rejected | Cancelled

datatype trip_status = Scheduled | Active | Completed | TripCancelled

record stop_point =
  sp_id :: nat
  sp_route_id :: nat
  stop_order :: int

record trip =
  t_id :: nat
  t_route_id :: nat
  driver_id :: nat
  departure_time :: int
  available_seats :: int
  price_per_seat :: "int option"
  trip_status :: trip_status

record trip_request =
  r_id :: nat
  r_trip_id :: nat
  passenger_id :: nat
  pickup_stop_id :: "nat option"
  dropoff_stop_id :: "nat option"
  requested_seats :: int
  request_status :: request_status
  message :: string
  total_price :: int
  created_at :: int
  updated_at :: int

record database =
  users :: "nat list"
  routes :: "nat list"
  stop_points :: "stop_point list"
  trips :: "trip list"
  trip_requests :: "trip_request list"

text \<open>
  Every \<^verbatim>\<open>throw\<close> of the models and every constraint violation the store can answer
  with is a value of \<open>error\<close>. An operation returns its outcome together with the
  store it leaves behind: the statements of one operation are sent one by one, each in
  its own transaction, so what was written before a \<^verbatim>\<open>throw\<close> stays written.
\<close>

datatype error =
    TripNotFound
  | TripRequestNotFound
  | StopPointNotFound
  | InvalidStatus
  | NotEnoughSeats
  | NoValidFields
  | IntegerOutOfRange
  | NumericOverflow
  | UniqueViolation string
  | ForeignKeyViolation string
  | TypeError string

type_synonym 'a outcome = "(error + 'a) \<times> database"

definition first_row :: "'a list \<Rightarrow> 'a option" where
  \<comment> \<open>\<^verbatim>\<open>result.rows[0]\<close>, \<open>None\<close> for \<^verbatim>\<open>undefined\<close>\<close>
  "first_row rows = (case rows of [] \<Rightarrow> None | x # _ \<Rightarrow> Some x)"

section \<open>Trip\<close>

definition Trip_findById :: "database \<Rightarrow> nat \<Rightarrow> trip option" where
  \<comment> \<open>\<^verbatim>\<open>FROM trips t JOIN routes r ON t.route_id = r.id JOIN users u ON t.driver_id = u.id
      WHERE t.id = $1\<close>\<close>
  "Trip_findById db tid =
     first_row (filter (\<lambda>t. t_id t = tid \<and> t_route_id t \<in> set (routes db)
                              \<and> driver_id t \<in> set (users db)) (trips db))"

definition approved_seats :: "database \<Rightarrow> nat \<Rightarrow> int" where
  \<comment> \<open>\<^verbatim>\<open>COALESCE((SELECT SUM(tr.requested_seats) FROM trip_requests tr
      WHERE tr.trip_id = t.id AND tr.request_status = 'approved'), 0)\<close>\<close>
  "approved_seats db tid =
     sum_list (map requested_seats
       (filter (\<lambda>r. r_trip_id r = tid \<and> request_status r = Approved) (trip_requests db)))"

definition remaining_seats_rows :: "database \<Rightarrow> nat \<Rightarrow> int list" where
  \<comment> \<open>the rows of the query of \<^verbatim>\<open>getRemainingSeats\<close>: one per trip row with the id\<close>
  "remaining_seats_rows db tid =
     map (\<lambda>t. available_seats t - approved_seats db (t_id t))
       (filter (\<lambda>t. t_id t = tid) (trips db))"

definition parseInt_or :: "int option \<Rightarrow> int \<Rightarrow> int" where
  \<comment> \<open>\<^verbatim>\<open>parseInt(v) || d\<close>: \<^verbatim>\<open>parseInt(undefined)\<close> is NaN, and both NaN and 0 are
      falsy, so either gives \<open>d\<close>\<close>
  "parseInt_or v d = (case v of None \<Rightarrow> d | Some n \<Rightarrow> if n = 0 then d else n)"

definition getRemainingSeats :: "database \<Rightarrow> trip \<Rightarrow> int" where
  "getRemainingSeats db this =
     parseInt_or (first_row (remaining_seats_rows db (t_id this))) (available_seats this)"

definition hasAvailableSeats :: "database \<Rightarrow> trip \<Rightarrow> int \<Rightarrow> bool" where
  "hasAvailableSeats db this requestedSeats = (getRemainingSeats db this \<ge> requestedSeats)"

definition isBookable :: "int \<Rightarrow> trip \<Rightarrow> bool" where
  \<comment> \<open>\<open>now\<close> is \<^verbatim>\<open>new Date()\<close>\<close>
  "isBookable now this =
     (trip_status this = Scheduled \<and> departure_time this > now \<and> available_seats this > 0)"

record trip_update =
  u_departure_time :: "int option"
  u_available_seats :: "int option"
  u_price_per_seat :: "int option option"
  u_trip_status :: "trip_status option"

definition apply_trip_update :: "trip_update \<Rightarrow> trip \<Rightarrow> trip" where
  \<comment> \<open>the \<^verbatim>\<open>SET\<close> list built from the fields of \<^verbatim>\<open>updateData\<close> that are not
      \<^verbatim>\<open>undefined\<close>\<close>
  "apply_trip_update u t =
     t\<lparr> departure_time := (case u_departure_time u of None \<Rightarrow> departure_time t | Some v \<Rightarrow> v),
        available_seats := (case u_available_seats u of None \<Rightarrow> available_seats t | Some v \<Rightarrow> v),
        price_per_seat := (case u_price_per_seat u of None \<Rightarrow> price_per_seat t | Some v \<Rightarrow> v),
        trip_status := (case u_trip_status u of None \<Rightarrow> trip_status t | Some v \<Rightarrow> v) \<rparr>"

definition trip_column_violation :: "trip_update \<Rightarrow> error option" where
  \<comment> \<open>the new values must fit the column types \<^verbatim>\<open>INTEGER\<close> of \<^verbatim>\<open>available_seats\<close> and
      \<^verbatim>\<open>DECIMAL(8, 2)\<close> of \<^verbatim>\<open>price_per_seat\<close>\<close>
  "trip_column_violation u =
     (case u_available_seats u of
        Some v \<Rightarrow>
          if v < - (2 ^ 31) \<or> v \<ge> 2 ^ 31 then Some IntegerOutOfRange
          else (case u_price_per_seat u of
                  Some (Some p) \<Rightarrow> if \<bar>p\<bar> \<ge> 10 ^ 8 then Some NumericOverflow else None
                | _ \<Rightarrow> None)
      | None \<Rightarrow>
          (case u_price_per_seat u of
             Some (Some p) \<Rightarrow> if \<bar>p\<bar> \<ge> 10 ^ 8 then Some NumericOverflow else None
           | _ \<Rightarrow> None))"

definition Trip_update :: "database \<Rightarrow> trip \<Rightarrow> trip_update \<Rightarrow> trip outcome" where
  \<comment> \<open>\<open>trip_update\<close> holds the fields of \<^verbatim>\<open>allowedFields\<close> that are columns of \<open>trip\<close>;
      the method compares no clock and no status before it writes. A value that does not
      fit its column makes the \<^verbatim>\<open>UPDATE\<close> fail and nothing is written.\<close>
  "Trip_update db this u =
     (if u_departure_time u = None \<and> u_available_seats u = None
          \<and> u_price_per_seat u = None \<and> u_trip_status u = None
      then (Inl NoValidFields, db)
      else
        (case trip_column_violation u of
           Some e \<Rightarrow> (Inl e, db)
         | None \<Rightarrow>
            (let db' = db\<lparr>trips := map (\<lambda>t. if t_id t = t_id this then apply_trip_update u t
                                             else t) (trips db)\<rparr>
             in (case first_row (filter (\<lambda>t. t_id t = t_id this) (trips db')) of
                   None \<Rightarrow> (Inl TripNotFound, db')
                 | Some row \<Rightarrow> (Inr row, db')))))"

definition no_update :: trip_update where
  "no_update = \<lparr> u_departure_time = None, u_available_seats = None,
                 u_price_per_seat = None, u_trip_status = None \<rparr>"

definition Trip_cancel :: "database \<Rightarrow> trip \<Rightarrow> trip outcome" where
  \<comment> \<open>\<^verbatim>\<open>this.update({ trip_status: 'cancelled' })\<close>\<close>
  "Trip_cancel db this = Trip_update db this (no_update\<lparr>u_trip_status := Some TripCancelled\<rparr>)"

section \<open>TripRequest\<close>

record request_data =
  rd_trip_id :: nat
  rd_passenger_id :: nat
  rd_pickup_stop_id :: "nat option"
  rd_dropoff_stop_id :: "nat option"
  rd_requested_seats :: "int option"
  rd_message :: string

definition stop_exists :: "database \<Rightarrow> nat option \<Rightarrow> bool" where
  "stop_exists db s = (case s of None \<Rightarrow> True | Some k \<Rightarrow> k \<in> set (map sp_id (stop_points db)))"

definition column_violation :: "trip_request \<Rightarrow> error option" where
  \<comment> \<open>the values must fit the column types \<^verbatim>\<open>INTEGER\<close> and \<^verbatim>\<open>DECIMAL(8, 2)\<close>\<close>
  "column_violation row =
     (if requested_seats row < - (2 ^ 31) \<or> requested_seats row \<ge> 2 ^ 31
        then Some IntegerOutOfRange
      else if \<bar>total_price row\<bar> \<ge> 10 ^ 8
        then Some NumericOverflow
      else None)"

definition insert_violation :: "database \<Rightarrow> trip_request \<Rightarrow> error option" where
  \<comment> \<open>what the \<^verbatim>\<open>trip_requests\<close> table answers to an \<^verbatim>\<open>INSERT\<close> of the row: the column
      types, then the unique indexes (the primary key and \<^verbatim>\<open>unique_passenger_trip\<close>),
      then the foreign keys\<close>
  "insert_violation db row =
     (if column_violation row \<noteq> None
        then column_violation row
      else if r_id row \<in> set (map r_id (trip_requests db))
        then Some (UniqueViolation ''trip_requests_pkey'')
      else if (r_trip_id row, passenger_id row)
                \<in> set (map (\<lambda>r. (r_trip_id r, passenger_id r)) (trip_requests db))
        then Some (UniqueViolation ''unique_passenger_trip'')
      else if r_trip_id row \<notin> set (map t_id (trips db))
        then Some (ForeignKeyViolation ''fk_trip_requests_trip_id'')
      else if passenger_id row \<notin> set (users db)
        then Some (ForeignKeyViolation ''fk_trip_requests_passenger_id'')
      else if \<not> stop_exists db (pickup_stop_id row)
        then Some (ForeignKeyViolation ''fk_trip_requests_pickup_stop'')
      else if \<not> stop_exists db (dropoff_stop_id row)
        then Some (ForeignKeyViolation ''fk_trip_requests_dropoff_stop'')
      else None)"

definition TripRequest_create :: "int \<Rightarrow> nat \<Rightarrow> database \<Rightarrow> request_data \<Rightarrow> trip_request outcome" where
  \<comment> \<open>\<open>now\<close> is \<^verbatim>\<open>CURRENT_TIMESTAMP\<close> and \<open>new_id\<close> the value the \<^verbatim>\<open>SERIAL\<close> sequence of
      the table hands out for the insert\<close>
  "TripRequest_create now new_id db rd =
     (let requested_seats' = (case rd_requested_seats rd of None \<Rightarrow> 1 | Some n \<Rightarrow> n)
      in case first_row (filter (\<lambda>t. t_id t = rd_trip_id rd) (trips db)) of
           None \<Rightarrow> (Inl TripNotFound, db)
         | Some t \<Rightarrow>
            (let pricePerSeat = (case price_per_seat t of None \<Rightarrow> 0 | Some p \<Rightarrow> p);
                 row = \<lparr> r_id = new_id, r_trip_id = rd_trip_id rd,
                         passenger_id = rd_passenger_id rd,
                         pickup_stop_id = rd_pickup_stop_id rd,
                         dropoff_stop_id = rd_dropoff_stop_id rd,
                         requested_seats = requested_seats',
                         request_status = Pending,
                         message = rd_message rd,
                         total_price = pricePerSeat * requested_seats',
                         created_at = now, updated_at = now \<rparr>
             in (case insert_violation db row of
                   Some e \<Rightarrow> (Inl e, db)
                 | None \<Rightarrow> (Inr row, db\<lparr>trip_requests := trip_requests db @ [row]\<rparr>))))"

definition TripRequest_findById :: "database \<Rightarrow> nat \<Rightarrow> trip_request option" where
  \<comment> \<open>\<^verbatim>\<open>FROM trip_requests tr JOIN trips t ON tr.trip_id = t.id
      JOIN users u ON tr.passenger_id = u.id WHERE tr.id = $1\<close>\<close>
  "TripRequest_findById db rid =
     first_row (filter (\<lambda>r. r_id r = rid \<and> r_trip_id r \<in> set (map t_id (trips db))
                              \<and> passenger_id r \<in> set (users db)) (trip_requests db))"

definition status_of_string :: "string \<Rightarrow> request_status option" where
  \<comment> \<open>membership in \<^verbatim>\<open>allowedStatuses\<close>\<close>
  "status_of_string s =
     (if s = ''pending'' then Some Pending
      else if s = ''approved'' then Some Approved
      else if s = ''rejected'' then Some Rejected
      else if s = ''cancelled'' then Some Cancelled
      else None)"

definition set_status :: "int \<Rightarrow> nat \<Rightarrow> request_status \<Rightarrow> trip_request \<Rightarrow> trip_request" where
  \<comment> \<open>\<^verbatim>\<open>UPDATE trip_requests SET request_status = $1 WHERE id = $2\<close> on one row; the
      trigger \<^verbatim>\<open>update_trip_requests_updated_at\<close> stamps every updated row\<close>
  "set_status now rid st r =
     (if r_id r = rid then r\<lparr>request_status := st, updated_at := now\<rparr> else r)"

definition updateStatus :: "int \<Rightarrow> database \<Rightarrow> trip_request \<Rightarrow> string \<Rightarrow> trip_request outcome" where
  "updateStatus now db this status =
     (case status_of_string status of
        None \<Rightarrow> (Inl InvalidStatus, db)
      | Some st \<Rightarrow>
         (let db' = db\<lparr>trip_requests := map (set_status now (r_id this) st) (trip_requests db)\<rparr>
          in (case first_row (filter (\<lambda>r. r_id r = r_id this) (trip_requests db')) of
                None \<Rightarrow> (Inl TripRequestNotFound, db')
              | Some this' \<Rightarrow>
                  if st = Approved then
                    (case Trip_findById db' (r_trip_id this') of
                       None \<Rightarrow> (Inl (TypeError ''trip is null''), db')
                     | Some trip \<Rightarrow>
                         if \<not> hasAvailableSeats db' trip (requested_seats this')
                         then (Inl NotEnoughSeats, db')
                         else (Inr this', db'))
                  else (Inr this', db'))))"

definition approve :: "int \<Rightarrow> database \<Rightarrow> trip_request \<Rightarrow> trip_request outcome" where
  "approve now db this = updateStatus now db this ''approved''"

definition reject :: "int \<Rightarrow> database \<Rightarrow> trip_request \<Rightarrow> trip_request outcome" where
  "reject now db this = updateStatus now db this ''rejected''"

definition cancel :: "int \<Rightarrow> database \<Rightarrow> trip_request \<Rightarrow> trip_request outcome" where
  "cancel now db this = updateStatus now db this ''cancelled''"

section \<open>StopPoint\<close>

definition StopPoint_findById :: "database \<Rightarrow> nat \<Rightarrow> stop_point option" where
  "StopPoint_findById db sid = first_row (filter (\<lambda>s. sp_id s = sid) (stop_points db))"

definition StopPoint_findByRoute :: "database \<Rightarrow> nat \<Rightarrow> stop_point list" where
  \<comment> \<open>\<^verbatim>\<open>SELECT * FROM stop_points WHERE route_id = $1 ORDER BY stop_order ASC\<close>\<close>
  "StopPoint_findByRoute db routeId =
     sort_key stop_order (filter (\<lambda>s. sp_route_id s = routeId) (stop_points db))"

definition ordered_stops :: "database \<Rightarrow> nat \<Rightarrow> (nat \<times> int) list" where
  \<comment> \<open>\<^verbatim>\<open>SELECT id, ROW_NUMBER() OVER (ORDER BY stop_order) as new_order
      FROM stop_points WHERE route_id = $1\<close>\<close>
  "ordered_stops db routeId =
     (let rows = sort_key stop_order (filter (\<lambda>s. sp_route_id s = routeId) (stop_points db))
      in zip (map sp_id rows) (map int [1 ..< Suc (length rows)]))"

definition set_order :: "(nat \<times> int) list \<Rightarrow> stop_point \<Rightarrow> stop_point" where
  \<comment> \<open>\<^verbatim>\<open>SET stop_order = new_order ... WHERE stop_points.id = ordered_stops.id\<close> on one row\<close>
  "set_order ordered s =
     (case map_of ordered (sp_id s) of None \<Rightarrow> s | Some new_order \<Rightarrow> s\<lparr>stop_order := new_order\<rparr>)"

fun update_stop_orders ::
    "(nat \<times> int) list \<Rightarrow> stop_point list \<Rightarrow> stop_point list \<Rightarrow> error + stop_point list" where
  \<comment> \<open>the \<^verbatim>\<open>UPDATE\<close> visits the rows one after the other, in the order of the table;
      \<open>done\<close> are the rows already visited, with the values they have now. The constraint
      \<^verbatim>\<open>unique_route_stop_order\<close> is not deferrable, so the index refuses a new
      \<^verbatim>\<open>(route_id, stop_order)\<close> as soon as another row holds it at that moment, whether
      that row is still to be renumbered or not.\<close>
  "update_stop_orders ordered done [] = Inr done"
| "update_stop_orders ordered done (s # rest) =
     (if map_of ordered (sp_id s) \<noteq> None
         \<and> (sp_route_id s, stop_order (set_order ordered s))
               \<in> set (map (\<lambda>t. (sp_route_id t, stop_order t)) (done @ rest))
      then Inl (UniqueViolation ''unique_route_stop_order'')
      else update_stop_orders ordered (done @ [set_order ordered s]) rest)"

definition reorderStopPoints :: "database \<Rightarrow> stop_point \<Rightarrow> unit outcome" where
  \<comment> \<open>one \<^verbatim>\<open>UPDATE\<close> statement: the numbering is computed on the table as it was, and a
      statement that fails leaves the table as it was\<close>
  "reorderStopPoints db this =
     (case update_stop_orders (ordered_stops db (sp_route_id this)) [] (stop_points db) of
        Inl e \<Rightarrow> (Inl e, db)
      | Inr rows' \<Rightarrow> (Inr (), db\<lparr>stop_points := rows'\<rparr>))"

definition clear_stop :: "int \<Rightarrow> nat \<Rightarrow> trip_request \<Rightarrow> trip_request" where
  \<comment> \<open>\<^verbatim>\<open>ON DELETE SET NULL\<close> of \<^verbatim>\<open>fk_trip_requests_pickup_stop\<close> and
      \<^verbatim>\<open>fk_trip_requests_dropoff_stop\<close>; the trigger stamps the rows it updates\<close>
  "clear_stop now sid r =
     (let r1 = (if pickup_stop_id r = Some sid
                then r\<lparr>pickup_stop_id := None, updated_at := now\<rparr> else r)
      in if dropoff_stop_id r1 = Some sid
         then r1\<lparr>dropoff_stop_id := None, updated_at := now\<rparr> else r1)"

definition StopPoint_delete :: "int \<Rightarrow> database \<Rightarrow> stop_point \<Rightarrow> stop_point outcome" where
  \<comment> \<open>the \<^verbatim>\<open>DELETE\<close> and the renumbering are two statements: when the second one
      fails, the stop is gone and the others keep their numbers\<close>
  "StopPoint_delete now db this =
     (if filter (\<lambda>s. sp_id s = sp_id this) (stop_points db) = []
      then (Inl StopPointNotFound, db)
      else
        let db' = db\<lparr> stop_points := filter (\<lambda>s. sp_id s \<noteq> sp_id this) (stop_points db),
                       trip_requests := map (clear_stop now (sp_id this)) (trip_requests db) \<rparr>
        in (case reorderStopPoints db' this of
              (Inl e, db'') \<Rightarrow> (Inl e, db'')
            | (Inr u, db'') \<Rightarrow> (Inr this, db'')))"

section \<open>Route handlers of \<^verbatim>\<open>routes/trips.js\<close>\<close>

text \<open>
  A handler answers with a status code and a message and runs inside
  \<^verbatim>\<open>try { ... } catch (error) { res.status(500) ... }\<close>. Two of the handlers call methods
  that no class of the repository declares: \<^verbatim>\<open>trip.hasStarted()\<close> and
  \<^verbatim>\<open>TripRequest.findPendingByUserAndTrip(...)\<close>. Calling a property that is
  \<^verbatim>\<open>undefined\<close> throws a \<^verbatim>\<open>TypeError\<close>, which is what the two definitions below
  return.
\<close>

datatype response = Response nat string

fun show_nat :: "nat \<Rightarrow> string" where
  \<comment> \<open>the decimal digits of a number, as a template literal prints it\<close>
  "show_nat n =
     (if n < 10 then [''0123456789'' ! n]
      else show_nat (n div 10) @ [''0123456789'' ! (n mod 10)])"

declare show_nat.simps [simp del]

definition show_int :: "int \<Rightarrow> string" where
  "show_int i = (if i < 0 then CHR ''-'' # show_nat (nat (- i)) else show_nat (nat i))"

definition Trip_hasStarted :: "trip \<Rightarrow> error + bool" where
  "Trip_hasStarted this = Inl (TypeError ''trip.hasStarted is not a function'')"

definition TripRequest_findPendingByUserAndTrip ::
    "database \<Rightarrow> nat \<Rightarrow> nat \<Rightarrow> error + trip_request option" where
  "TripRequest_findPendingByUserAndTrip db userId tripId =
     Inl (TypeError ''TripRequest.findPendingByUserAndTrip is not a function'')"

definition cancel_trip_route :: "database \<Rightarrow> nat \<Rightarrow> nat \<Rightarrow> response \<times> database" where
  \<comment> \<open>\<^verbatim>\<open>router.delete('/:id', ...)\<close>\<close>
  "cancel_trip_route db userId tripId =
     (case Trip_findById db tripId of
        None \<Rightarrow> (Response 404 ''Trip not found'', db)
      | Some trip \<Rightarrow>
          if driver_id trip \<noteq> userId
          then (Response 403 ''Not authorized to cancel this trip'', db)
          else
            (case Trip_hasStarted trip of
               Inl e \<Rightarrow> (Response 500 ''Failed to cancel trip'', db)
             | Inr True \<Rightarrow> (Response 400 ''Cannot cancel trip that has already started'', db)
             | Inr False \<Rightarrow>
                 (case Trip_cancel db trip of
                    (Inl e, db') \<Rightarrow> (Response 500 ''Failed to cancel trip'', db')
                  | (Inr t, db') \<Rightarrow> (Response 200 ''Trip cancelled successfully'', db'))))"

record request_body =
  passenger_count :: "int option"
  body_message :: string

definition request_trip_route ::
    "int \<Rightarrow> nat \<Rightarrow> database \<Rightarrow> nat \<Rightarrow> nat \<Rightarrow> request_body \<Rightarrow> response \<times> database" where
  \<comment> \<open>\<^verbatim>\<open>router.post('/:id/request', ...)\<close>. The test
      \<^verbatim>\<open>!trip.hasAvailableSeats(passenger_count)\<close> negates a promise, which is never
      falsy, so it rejects nothing. The handler hands \<^verbatim>\<open>passenger_count\<close> to
      \<^verbatim>\<open>TripRequest.create\<close> under a key that \<^verbatim>\<open>create\<close> does not read, so
      \<^verbatim>\<open>requested_seats\<close> would take its default.\<close>
  "request_trip_route now new_id db userId tripId body =
     (case Trip_findById db tripId of
        None \<Rightarrow> (Response 404 ''Trip not found'', db)
      | Some trip \<Rightarrow>
          if driver_id trip = userId
          then (Response 400 ''Cannot request your own trip'', db)
          else
            (let count = (case passenger_count body of None \<Rightarrow> 1 | Some n \<Rightarrow> n)
             in if count < 1 \<or> count > available_seats trip
                then (Response 400 (''Passenger count must be between 1 and ''
                                      @ show_int (available_seats trip)), db)
                else
                  (case TripRequest_findPendingByUserAndTrip db userId (t_id trip) of
                     Inl e \<Rightarrow> (Response 500 ''Failed to create trip request'', db)
                   | Inr (Some existing) \<Rightarrow>
                       (Response 400 ''You already have a pending request for this trip'', db)
                   | Inr None \<Rightarrow>
                       (case TripRequest_create now new_id db
                               \<lparr> rd_trip_id = t_id trip, rd_passenger_id = userId,
                                 rd_pickup_stop_id = None, rd_dropoff_stop_id = None,
                                 rd_requested_seats = None, rd_message = body_message body \<rparr> of
                          (Inl e, db') \<Rightarrow> (Response 500 ''Failed to create trip request'', db')
                        | (Inr r, db') \<Rightarrow> (Response 201 ''Trip request sent successfully'', db')))))"

section \<open>Histories of the request ledger\<close>

text \<open>
  The operations on trip requests: a creation, and an approval, rejection or
  cancellation of the request a handler has loaded with \<^verbatim>\<open>TripRequest.findById\<close>
  (a request that is not found is answered with 404 and nothing is written). Each
  operation carries its \<^verbatim>\<open>CURRENT_TIMESTAMP\<close>, a creation also the identifier the
  sequence hands out.
\<close>

datatype operation =
    Create int nat request_data
  | Approve int nat
  | Reject int nat
  | Cancel int nat

definition on_request ::
    "database \<Rightarrow> nat \<Rightarrow> (trip_request \<Rightarrow> trip_request outcome) \<Rightarrow> database" where
  "on_request db rid f = (case TripRequest_findById db rid of None \<Rightarrow> db | Some r \<Rightarrow> snd (f r))"

fun step :: "database \<Rightarrow> operation \<Rightarrow> database" where
  "step db (Create now new_id rd) = snd (TripRequest_create now new_id db rd)"
| "step db (Approve now rid) = on_request db rid (approve now db)"
| "step db (Reject now rid) = on_request db rid (reject now db)"
| "step db (Cancel now rid) = on_request db rid (cancel now db)"

definition run :: "database \<Rightarrow> operation list \<Rightarrow> database" where
  "run db ops = foldl step db ops"

section \<open>Constraints of the schema\<close>

definition request_pairs :: "database \<Rightarrow> (nat \<times> nat) list" where
  \<comment> \<open>the (trip, passenger) pair of every request\<close>
  "request_pairs db = map (\<lambda>r. (r_trip_id r, passenger_id r)) (trip_requests db)"

definition trip_requests_pkey :: "database \<Rightarrow> bool" where
  "trip_requests_pkey db = distinct (map r_id (trip_requests db))"

definition unique_passenger_trip :: "database \<Rightarrow> bool" where
  "unique_passenger_trip db = distinct (request_pairs db)"

definition stop_points_pkey :: "database \<Rightarrow> bool" where
  "stop_points_pkey db = distinct (map sp_id (stop_points db))"

definition unique_route_stop_order :: "database \<Rightarrow> bool" where
  "unique_route_stop_order db = distinct (map (\<lambda>s. (sp_route_id s, stop_order s)) (stop_points db))"

definition active_requests :: "database \<Rightarrow> nat \<Rightarrow> nat \<Rightarrow> trip_request list" where
  \<comment> \<open>the requests of a passenger on a trip that are pending or approved\<close>
  "active_requests db tripId passengerId =
     filter (\<lambda>r. r_trip_id r = tripId \<and> passenger_id r = passengerId
                  \<and> (request_status r = Pending \<or> request_status r = Approved))
            (trip_requests db)"

section \<open>Example stores\<close>

definition example_trip :: trip where
  "example_trip = \<lparr> t_id = 1, t_route_id = 1, driver_id = 1, departure_time = 1000,
     available_seats = 3, price_per_seat = None, trip_status = Scheduled \<rparr>"

definition example_stop :: "nat \<Rightarrow> int \<Rightarrow> stop_point" where
  "example_stop i k = \<lparr> sp_id = i, sp_route_id = 1, stop_order = k \<rparr>"

definition example_db :: database where
  \<comment> \<open>one route with four stops, one trip of three seats driven by user 1, no request\<close>
  "example_db = \<lparr> users = [1, 2, 3], routes = [1],
     stop_points = [example_stop 10 1, example_stop 20 2, example_stop 30 3, example_stop 40 4],
     trips = [example_trip], trip_requests = [] \<rparr>"

definition seat_request :: "nat \<Rightarrow> int \<Rightarrow> request_data" where
  "seat_request p n = \<lparr> rd_trip_id = 1, rd_passenger_id = p, rd_pickup_stop_id = None,
     rd_dropoff_stop_id = None, rd_requested_seats = Some n, rd_message = [] \<rparr>"

definition example_request :: "nat \<Rightarrow> nat \<Rightarrow> int \<Rightarrow> request_status \<Rightarrow> trip_request" where
  "example_request i p n st = \<lparr> r_id = i, r_trip_id = 1, passenger_id = p,
     pickup_stop_id = None, dropoff_stop_id = None, requested_seats = n,
     request_status = st, message = [], total_price = 0, created_at = 1, updated_at = 1 \<rparr>"

definition overbooking_history :: "operation list" where
  \<comment> \<open>two passengers ask for two seats each, the driver approves one request, then the other\<close>
  "overbooking_history =
     [Create 1 1 (seat_request 2 2), Create 2 2 (seat_request 3 2), Approve 3 1, Approve 4 2]"

definition contended_db :: database where
  \<comment> \<open>two of the three seats are approved, a second request for two seats is pending\<close>
  "contended_db = example_db\<lparr>trip_requests :=
     [example_request 1 2 2 Approved, example_request 2 3 2 Pending]\<rparr>"

definition full_db :: database where
  \<comment> \<open>all three seats are approved\<close>
  "full_db = example_db\<lparr>trip_requests := [example_request 1 2 3 Approved]\<rparr>"

definition zero_based_db :: database where
  \<comment> \<open>the route has three stops, numbered 0, 1, 2 through \<^verbatim>\<open>StopPoint.update\<close>\<close>
  "zero_based_db = example_db\<lparr>stop_points :=
     [example_stop 10 0, example_stop 20 1, example_stop 30 2]\<rparr>"

definition pending_db :: database where
  \<comment> \<open>one pending request for two of the three seats\<close>
  "pending_db = example_db\<lparr>trip_requests := [example_request 1 2 2 Pending]\<rparr>"

definition rejected_db :: database where
  \<comment> \<open>the only request, of passenger 2, has been rejected\<close>
  "rejected_db = example_db\<lparr>trip_requests := [example_request 1 2 2 Rejected]\<rparr>"

section \<open>Evaluation and basic facts\<close>

lemmas example_defs = example_trip_def example_stop_def example_db_def seat_request_def
  example_request_def overbooking_history_def contended_db_def full_db_def
  pending_db_def rejected_db_def zero_based_db_def

lemmas ledger_defs = run_def on_request_def TripRequest_create_def TripRequest_findById_def
  first_row_def insert_violation_def column_violation_def stop_exists_def approve_def reject_def cancel_def
  updateStatus_def status_of_string_def set_status_def Trip_findById_def hasAvailableSeats_def
  getRemainingSeats_def remaining_seats_rows_def approved_seats_def parseInt_or_def Let_def

lemma snd_updateStatus:
  "snd (updateStatus now db this s) =
     (case status_of_string s of
        None \<Rightarrow> db
      | Some st \<Rightarrow> db\<lparr>trip_requests := map (set_status now (r_id this) st) (trip_requests db)\<rparr>)"
  by (simp add: updateStatus_def Let_def split: option.split)

lemma filter_id_set_status:
  "filter (\<lambda>r. r_id r = rid) (map (set_status now rid st) rows)
     = map (\<lambda>r. r\<lparr>request_status := st, updated_at := now\<rparr>) (filter (\<lambda>r. r_id r = rid) rows)"
  by (induction rows) (simp_all add: set_status_def)

lemma fst_updateStatus_not_approved:
  "status_of_string s = Some st \<Longrightarrow> st \<noteq> Approved \<Longrightarrow>
   fst (updateStatus now db this s) =
     (case first_row (filter (\<lambda>r. r_id r = r_id this) (trip_requests db)) of
        None \<Rightarrow> Inl TripRequestNotFound
      | Some r \<Rightarrow> Inr (r\<lparr>request_status := st, updated_at := now\<rparr>))"
  by (simp add: updateStatus_def Let_def filter_id_set_status first_row_def split: list.split)

section \<open>Seat capacity\<close>

text \<open>
  Claim C1. For every trip and every store reached through creations, approvals,
  rejections and cancellations, the seats of the approved requests of the trip sum to at
  most \<^verbatim>\<open>available_seats\<close>.

  \<^verbatim>\<open>updateStatus\<close> writes the status \<^verbatim>\<open>approved\<close> first and tests
  \<^verbatim>\<open>hasAvailableSeats\<close> afterwards, and a failed test throws without taking the
  status back. On a trip of three seats, two requests of two seats each are created and
  approved one after the other: both approvals throw, both requests are stored as
  approved, and four seats are approved on three.
\<close>

theorem overbooking_after_two_approvals:
  "approved_seats example_db 1 = 0
   \<and> approved_seats (run example_db overbooking_history) 1 = 4
   \<and> map available_seats (trips (run example_db overbooking_history)) = [3]"
  by (simp add: example_defs ledger_defs)

text \<open>
  Claim C2. Approval checks the capacity before it stores \<^verbatim>\<open>approved\<close>, and when the
  check fails the stored status is still \<^verbatim>\<open>pending\<close> and the error reaches the caller.

  In \<open>contended_db\<close> two of three seats are taken and request 2 asks for two more. The
  approval throws \<^verbatim>\<open>Not enough available seats\<close>, and the store it leaves holds
  request 2 as approved.
\<close>

theorem failed_approval_stays_approved:
  "TripRequest_findById contended_db 2 = Some (example_request 2 3 2 Pending)
   \<and> fst (approve 5 contended_db (example_request 2 3 2 Pending)) = Inl NotEnoughSeats
   \<and> map request_status
        (trip_requests (snd (approve 5 contended_db (example_request 2 3 2 Pending))))
       = [Approved, Approved]"
  by (simp add: example_defs ledger_defs)

text \<open>
  Claim C3. \<^verbatim>\<open>getRemainingSeats\<close> returns \<^verbatim>\<open>available_seats\<close> minus the seats of the
  approved requests, and so 0 when the approved seats equal \<^verbatim>\<open>available_seats\<close>.

  The query computes that difference, but the method returns
  \<^verbatim>\<open>parseInt(remaining_seats) || this.available_seats\<close>, and 0 is falsy: on the trip of
  \<open>full_db\<close>, whose three seats are all approved, it returns 3.
\<close>

theorem getRemainingSeats_of_full_trip:
  "available_seats example_trip - approved_seats full_db (t_id example_trip) = 0
   \<and> getRemainingSeats full_db example_trip = 3"
  by (simp add: example_defs ledger_defs)

text \<open>
  Claim C6, as amended. \<^verbatim>\<open>isBookable\<close> holds exactly when the trip is scheduled, departs
  strictly after now and has \<^verbatim>\<open>available_seats\<close>, the capacity stored on the trip
  row, above 0. The approved requests are not consulted.
\<close>

theorem isBookable_iff:
  "isBookable now this \<longleftrightarrow>
     trip_status this = Scheduled \<and> now < departure_time this \<and> 0 < available_seats this"
  by (simp add: isBookable_def)

text \<open>
  The trip of \<open>full_db\<close> has no seat left and is bookable all the same.
\<close>

theorem isBookable_without_remaining_seats:
  "isBookable 0 example_trip
   \<and> \<not> (trip_status example_trip = Scheduled \<and> 0 < departure_time example_trip
          \<and> 0 < available_seats example_trip - approved_seats full_db (t_id example_trip))"
  by (simp add: example_defs ledger_defs isBookable_def)

section \<open>Transitions of requests and trips\<close>

text \<open>
  What a repeated \<^verbatim>\<open>reject\<close> does: \<^verbatim>\<open>updateStatus\<close> tests the new status against
  \<^verbatim>\<open>allowedStatuses\<close> and nothing else, so the second call runs the same
  \<^verbatim>\<open>UPDATE\<close> as the first. The status stays \<^verbatim>\<open>rejected\<close>, the trigger stamps
  \<^verbatim>\<open>updated_at\<close> again, and the call returns what the first call returned, with the new
  \<^verbatim>\<open>updated_at\<close>.
\<close>

lemma reject_twice:
  "snd (reject t2 (snd (reject t1 db this)) this)
     = (snd (reject t1 db this))\<lparr>trip_requests :=
          map (\<lambda>r. if r_id r = r_id this then r\<lparr>updated_at := t2\<rparr> else r)
              (trip_requests (snd (reject t1 db this)))\<rparr>
   \<and> fst (reject t2 (snd (reject t1 db this)) this)
       = map_sum id (\<lambda>r. r\<lparr>updated_at := t2\<rparr>) (fst (reject t1 db this))
   \<and> list_all (\<lambda>r. request_status r = Rejected)
        (filter (\<lambda>r. r_id r = r_id this) (trip_requests (snd (reject t1 db this))))"
proof -
  have st: "status_of_string ''rejected'' = Some Rejected"
    by (simp add: status_of_string_def)
  have a: "snd (reject t1 db this)
             = db\<lparr>trip_requests := map (set_status t1 (r_id this) Rejected) (trip_requests db)\<rparr>"
    by (simp add: reject_def snd_updateStatus st)
  have b: "snd (reject t2 (snd (reject t1 db this)) this)
     = (snd (reject t1 db this))\<lparr>trip_requests :=
          map (\<lambda>r. if r_id r = r_id this then r\<lparr>updated_at := t2\<rparr> else r)
              (trip_requests (snd (reject t1 db this)))\<rparr>"
    by (simp add: reject_def snd_updateStatus st set_status_def)
  have c: "fst (reject t2 (snd (reject t1 db this)) this)
       = map_sum id (\<lambda>r. r\<lparr>updated_at := t2\<rparr>) (fst (reject t1 db this))"
    unfolding a
    by (simp add: reject_def fst_updateStatus_not_approved st filter_id_set_status
          first_row_def split: list.split)
  have d: "list_all (\<lambda>r. request_status r = Rejected)
        (filter (\<lambda>r. r_id r = r_id this) (trip_requests (snd (reject t1 db this))))"
    unfolding a by (simp add: filter_id_set_status list_all_iff)
  from b c d show ?thesis by blast
qed

text \<open>
  Claim C7. Calling \<^verbatim>\<open>reject\<close> twice leaves the request as one call leaves it, and the
  second call raises \<^verbatim>\<open>InvalidStateTransitionError\<close>.

  \<^verbatim>\<open>TripRequest.canApprove\<close> (\<^verbatim>\<open>// Check if user can approve/reject this request\<close>) asks
  for the status \<^verbatim>\<open>pending\<close>, but neither \<^verbatim>\<open>reject\<close> nor the handler that calls it
  consults it. Request 2 of \<open>contended_db\<close> is rejected at time 10 and again at time 20:
  the second call returns the request, not an error, and the store differs from the one
  the first call left.
\<close>

theorem second_reject_succeeds:
  "\<not> isl (fst (reject 20 (snd (reject 10 contended_db (example_request 2 3 2 Pending)))
                   (example_request 2 3 2 Pending)))
   \<and> snd (reject 20 (snd (reject 10 contended_db (example_request 2 3 2 Pending)))
             (example_request 2 3 2 Pending))
       \<noteq> snd (reject 10 contended_db (example_request 2 3 2 Pending))"
  by (simp add: example_defs ledger_defs)

text \<open>
  Claim C8. Once the departure time has passed, the driver's cancel and update fail with
  \<^verbatim>\<open>TripAlreadyStartedError\<close> and leave the trip unchanged.

  Neither \<^verbatim>\<open>Trip.update\<close> nor \<^verbatim>\<open>Trip.cancel\<close> reads a clock, so at any time after the
  departure at 1000 \<^verbatim>\<open>cancel\<close> stores \<^verbatim>\<open>cancelled\<close> on \<open>example_trip\<close> and
  \<^verbatim>\<open>update\<close> stores a new capacity. The handler of \<^verbatim>\<open>DELETE /:id\<close> means to refuse a
  started trip, but the method it asks, \<^verbatim>\<open>hasStarted\<close>, does not exist: it answers the
  driver with the 500 of its \<^verbatim>\<open>catch\<close>, whatever the departure time.
\<close>

theorem cancel_of_started_trip:
  "Trip_findById example_db 1 = Some example_trip
   \<and> Trip_cancel example_db example_trip
       = (Inr (example_trip\<lparr>trip_status := TripCancelled\<rparr>),
          example_db\<lparr>trips := [example_trip\<lparr>trip_status := TripCancelled\<rparr>]\<rparr>)
   \<and> Trip_update example_db example_trip (no_update\<lparr>u_available_seats := Some 5\<rparr>)
       = (Inr (example_trip\<lparr>available_seats := 5\<rparr>),
          example_db\<lparr>trips := [example_trip\<lparr>available_seats := 5\<rparr>]\<rparr>)
   \<and> cancel_trip_route example_db 1 1 = (Response 500 ''Failed to cancel trip'', example_db)"
  by (simp add: example_defs ledger_defs cancel_trip_route_def Trip_hasStarted_def
        Trip_cancel_def Trip_update_def trip_column_violation_def no_update_def
        apply_trip_update_def)

section \<open>Approval followed by cancellation\<close>

lemma findById_set_status:
  "TripRequest_findById (db\<lparr>trip_requests := map (set_status now rid st) (trip_requests db)\<rparr>) k
     = map_option (set_status now rid st) (TripRequest_findById db k)"
proof -
  have "filter (\<lambda>r. r_id r = k \<and> r_trip_id r \<in> T \<and> passenger_id r \<in> U)
          (map (set_status now rid st) rows)
        = map (set_status now rid st)
            (filter (\<lambda>r. r_id r = k \<and> r_trip_id r \<in> T \<and> passenger_id r \<in> U) rows)"
    for T U rows
    by (induction rows) (simp_all add: set_status_def)
  then show ?thesis
    by (simp add: TripRequest_findById_def first_row_def split: list.split)
qed

lemma findById_id:
  assumes "TripRequest_findById db k = Some r"
  shows "r_id r = k \<and> r \<in> set (trip_requests db)"
proof -
  let ?P = "\<lambda>r. r_id r = k \<and> r_trip_id r \<in> set (map t_id (trips db))
                 \<and> passenger_id r \<in> set (users db)"
  from assms obtain rest where "filter ?P (trip_requests db) = r # rest"
    by (auto simp: TripRequest_findById_def first_row_def split: list.splits)
  then have "r \<in> set (filter ?P (trip_requests db))"
    by simp
  then show ?thesis by simp
qed

lemma approved_sum_approve_cancel:
  "list_all (\<lambda>r. r_id r = rid \<longrightarrow> request_status r \<noteq> Approved) rows \<Longrightarrow>
   sum_list (map requested_seats
      (filter (\<lambda>r. r_trip_id r = tid \<and> request_status r = Approved)
         (map (set_status t2 rid Cancelled) (map (set_status t1 rid Approved) rows))))
   = sum_list (map requested_seats
      (filter (\<lambda>r. r_trip_id r = tid \<and> request_status r = Approved) rows))"
  by (induction rows) (auto simp: set_status_def)

lemma pkey_rows_with_id:
  assumes "distinct (map r_id rows)" "this \<in> set rows" "r \<in> set rows" "r_id r = r_id this"
  shows "r = this"
  using assms by (meson distinct_map inj_on_def)

lemma getRemainingSeats_cong:
  "trips db' = trips db \<Longrightarrow> (\<And>tid. approved_seats db' tid = approved_seats db tid) \<Longrightarrow>
   getRemainingSeats db' trip = getRemainingSeats db trip"
  by (simp add: getRemainingSeats_def remaining_seats_rows_def)

text \<open>
  Claim C9. A pending request is approved (its seats are reserved) and then cancelled
  (they are released): \<^verbatim>\<open>getRemainingSeats\<close> of every trip is what it was before the
  approval. The approval may have thrown; the status it stored is replaced all the same.
\<close>

theorem approve_then_cancel_restores_remaining_seats:
  assumes pkey: "trip_requests_pkey db"
    and found: "TripRequest_findById db rid = Some this"
    and pending: "request_status this = Pending"
  shows "getRemainingSeats (run db [Approve t1 rid, Cancel t2 rid]) trip
           = getRemainingSeats db trip"
proof -
  have ids: "r_id this = rid" "this \<in> set (trip_requests db)"
    using findById_id[OF found] by simp_all
  let ?db1 = "db\<lparr>trip_requests := map (set_status t1 rid Approved) (trip_requests db)\<rparr>"
  let ?db2 = "db\<lparr>trip_requests := map (set_status t2 rid Cancelled)
                 (map (set_status t1 rid Approved) (trip_requests db))\<rparr>"
  have s1: "step db (Approve t1 rid) = ?db1"
    by (simp add: on_request_def found approve_def snd_updateStatus status_of_string_def ids)
  have f1: "TripRequest_findById ?db1 rid = Some (set_status t1 rid Approved this)"
    by (simp add: findById_set_status found)
  have s2: "step ?db1 (Cancel t2 rid) = ?db2"
    by (simp add: on_request_def f1 cancel_def snd_updateStatus status_of_string_def
          set_status_def ids)
  have r: "run db [Approve t1 rid, Cancel t2 rid] = ?db2"
    by (simp only: run_def foldl_Cons foldl_Nil s1 s2)
  have na: "list_all (\<lambda>r. r_id r = rid \<longrightarrow> request_status r \<noteq> Approved) (trip_requests db)"
    unfolding list_all_iff
  proof (intro ballI impI)
    fix r assume "r \<in> set (trip_requests db)" "r_id r = rid"
    then have "r = this"
      using pkey ids pkey_rows_with_id[of "trip_requests db" this r]
      by (simp add: trip_requests_pkey_def)
    then show "request_status r \<noteq> Approved" using pending by simp
  qed
  have "approved_seats ?db2 tid = approved_seats db tid" for tid
    using approved_sum_approve_cancel[OF na, of tid t2 t1] by (simp add: approved_seats_def)
  then show ?thesis
    unfolding r by (intro getRemainingSeats_cong) simp_all
qed

text \<open>
  On \<open>pending_db\<close>: three seats remain, one after the approval of the request for two,
  three again after its cancellation.
\<close>

theorem approve_then_cancel_witness:
  "trip_requests_pkey pending_db
   \<and> TripRequest_findById pending_db 1 = Some (example_request 1 2 2 Pending)
   \<and> getRemainingSeats pending_db example_trip = 3
   \<and> getRemainingSeats (run pending_db [Approve 5 1]) example_trip = 1
   \<and> getRemainingSeats (run pending_db [Approve 5 1, Cancel 6 1]) example_trip = 3"
  using approve_then_cancel_restores_remaining_seats
          [of pending_db 1 "example_request 1 2 2 Pending" 5 6 example_trip]
  by (simp add: trip_requests_pkey_def example_defs ledger_defs)

section \<open>One request per passenger and trip\<close>

lemma pairs_set_status:
  "map (\<lambda>r. (r_trip_id r, passenger_id r)) (map (set_status now rid st) rows)
     = map (\<lambda>r. (r_trip_id r, passenger_id r)) rows"
  by (induction rows) (simp_all add: set_status_def)

lemma request_pairs_updateStatus:
  "request_pairs (snd (updateStatus now db this s)) = request_pairs db"
  using pairs_set_status[of now "r_id this" _ "trip_requests db"]
  by (simp add: snd_updateStatus request_pairs_def split: option.split)

lemma create_cases:
  "TripRequest_create now new_id db rd = (Inr row, db') \<Longrightarrow>
     db' = db\<lparr>trip_requests := trip_requests db @ [row]\<rparr>
     \<and> r_trip_id row = rd_trip_id rd \<and> passenger_id row = rd_passenger_id rd
     \<and> insert_violation db row = None"
  by (auto simp: TripRequest_create_def Let_def split: option.splits)

lemma create_error_unchanged:
  "fst (TripRequest_create now new_id db rd) = Inl e \<Longrightarrow>
     snd (TripRequest_create now new_id db rd) = db"
  by (auto simp: TripRequest_create_def Let_def split: option.splits)

lemma insert_ok_pair_fresh:
  "insert_violation db row = None \<Longrightarrow>
     (r_trip_id row, passenger_id row) \<notin> set (request_pairs db)"
  by (auto simp: insert_violation_def request_pairs_def split: if_splits)

lemma request_pairs_create:
  "request_pairs (snd (TripRequest_create now new_id db rd)) = request_pairs db
   \<or> (request_pairs (snd (TripRequest_create now new_id db rd))
         = request_pairs db @ [(rd_trip_id rd, rd_passenger_id rd)]
       \<and> (rd_trip_id rd, rd_passenger_id rd) \<notin> set (request_pairs db))"
proof (cases "TripRequest_create now new_id db rd")
  case (Pair res db')
  show ?thesis
  proof (cases res)
    case (Inl e)
    with Pair create_error_unchanged[of now new_id db rd e] show ?thesis by simp
  next
    case (Inr row)
    with Pair create_cases[of now new_id db rd row db'] insert_ok_pair_fresh[of db row]
    show ?thesis by (simp add: request_pairs_def)
  qed
qed

lemma request_pairs_step:
  "request_pairs (step db op) = request_pairs db
   \<or> (\<exists>k. request_pairs (step db op) = request_pairs db @ [k] \<and> k \<notin> set (request_pairs db))"
proof (cases op)
  case (Create now new_id rd)
  then show ?thesis using request_pairs_create[of now new_id db rd] by auto
next
  case (Approve now rid)
  then show ?thesis
    by (simp add: on_request_def approve_def request_pairs_updateStatus split: option.split)
next
  case (Reject now rid)
  then show ?thesis
    by (simp add: on_request_def reject_def request_pairs_updateStatus split: option.split)
next
  case (Cancel now rid)
  then show ?thesis
    by (simp add: on_request_def cancel_def request_pairs_updateStatus split: option.split)
qed

lemma unique_passenger_trip_step:
  "unique_passenger_trip db \<Longrightarrow> unique_passenger_trip (step db op)"
  using request_pairs_step[of db op] by (auto simp: unique_passenger_trip_def)

lemma request_pairs_step_mono:
  "k \<in> set (request_pairs db) \<Longrightarrow> k \<in> set (request_pairs (step db op))"
  using request_pairs_step[of db op] by auto

lemma unique_passenger_trip_run:
  "unique_passenger_trip db \<Longrightarrow> unique_passenger_trip (run db ops)"
  unfolding run_def
  by (induction ops arbitrary: db) (simp_all add: unique_passenger_trip_step)

lemma request_pairs_run_mono:
  "k \<in> set (request_pairs db) \<Longrightarrow> k \<in> set (request_pairs (run db ops))"
  unfolding run_def
  by (induction ops arbitrary: db) (simp_all add: request_pairs_step_mono)

lemma distinct_keys_filter_le1:
  "distinct (map f xs) \<Longrightarrow> length (filter (\<lambda>x. f x = k \<and> Q x) xs) \<le> 1"
proof (induction xs)
  case Nil
  show ?case by simp
next
  case (Cons x xs)
  show ?case
  proof (cases "f x = k")
    case True
    from Cons.prems have "f x \<notin> set (map f xs)"
      by simp
    then have "\<And>y. y \<in> set xs \<Longrightarrow> f y \<noteq> k"
      unfolding True[symmetric] by (metis imageI set_map)
    then have "filter (\<lambda>y. f y = k \<and> Q y) xs = []"
      by (simp add: filter_empty_conv)
    then show ?thesis by simp
  next
    case False
    with Cons show ?thesis by simp
  qed
qed

lemma active_requests_le1:
  "unique_passenger_trip db \<Longrightarrow> length (active_requests db t p) \<le> 1"
  using distinct_keys_filter_le1[of "\<lambda>r. (r_trip_id r, passenger_id r)" "trip_requests db"
          "(t, p)" "\<lambda>r. request_status r = Pending \<or> request_status r = Approved"]
  by (simp add: unique_passenger_trip_def request_pairs_def active_requests_def)

lemma active_pair_present:
  "active_requests db t p \<noteq> [] \<Longrightarrow> (t, p) \<in> set (request_pairs db)"
  by (auto simp: active_requests_def request_pairs_def filter_empty_conv)

lemma create_pair_present:
  assumes "(rd_trip_id rd, rd_passenger_id rd) \<in> set (request_pairs db)"
  shows "snd (TripRequest_create now new_id db rd) = db"
    and "isl (fst (TripRequest_create now new_id db rd))"
    and "new_id \<notin> set (map r_id (trip_requests db)) \<Longrightarrow>
         fst (TripRequest_create now new_id db rd)
           \<in> {Inl TripNotFound, Inl IntegerOutOfRange, Inl NumericOverflow,
               Inl (UniqueViolation ''unique_passenger_trip'')}"
  using assms
  by (auto simp: TripRequest_create_def Let_def insert_violation_def column_violation_def
        request_pairs_def split: option.splits if_splits)

lemma request_trip_route_writes_nothing:
  "snd (request_trip_route now new_id db userId tripId body) = db"
  by (simp add: request_trip_route_def TripRequest_findPendingByUserAndTrip_def Let_def
        split: option.split)

text \<open>
  Claim C4. In every store reached from one that satisfies \<^verbatim>\<open>unique_passenger_trip\<close>,
  a passenger has at most one pending or approved request on a trip; and while such a
  request exists, \<^verbatim>\<open>TripRequest.create\<close> for the same trip and passenger fails and
  leaves the store as it was. The handler of \<^verbatim>\<open>POST /:id/request\<close> writes nothing
  either.
\<close>

theorem at_most_one_active_request:
  assumes "unique_passenger_trip db"
  shows "length (active_requests (run db ops) tripId passengerId) \<le> 1
       \<and> (active_requests (run db ops) (rd_trip_id rd) (rd_passenger_id rd) \<noteq> [] \<longrightarrow>
            isl (fst (TripRequest_create now new_id (run db ops) rd))
            \<and> snd (TripRequest_create now new_id (run db ops) rd) = run db ops)
       \<and> snd (request_trip_route now new_id (run db ops) userId tripId' body) = run db ops"
proof -
  have u: "unique_passenger_trip (run db ops)"
    using assms by (rule unique_passenger_trip_run)
  have a: "length (active_requests (run db ops) tripId passengerId) \<le> 1"
    using u by (rule active_requests_le1)
  have b: "active_requests (run db ops) (rd_trip_id rd) (rd_passenger_id rd) \<noteq> [] \<longrightarrow>
            isl (fst (TripRequest_create now new_id (run db ops) rd))
            \<and> snd (TripRequest_create now new_id (run db ops) rd) = run db ops"
    using create_pair_present(1,2)[OF active_pair_present] by blast
  from a b show ?thesis
    by (simp only: request_trip_route_writes_nothing simp_thms)
qed

text \<open>
  Passenger 2 has a pending request on the example trip; a second creation is refused
  by the unique constraint.
\<close>

theorem at_most_one_active_request_witness:
  "unique_passenger_trip example_db
   \<and> active_requests (run example_db [Create 1 1 (seat_request 2 2)]) 1 2
       = [example_request 1 2 2 Pending]
   \<and> TripRequest_create 2 2 (run example_db [Create 1 1 (seat_request 2 2)]) (seat_request 2 1)
       = (Inl (UniqueViolation ''unique_passenger_trip''),
          run example_db [Create 1 1 (seat_request 2 2)])"
  using at_most_one_active_request
          [where db = example_db and ops = "[Create 1 1 (seat_request 2 2)]"
             and tripId = 1 and passengerId = 2 and rd = "seat_request 2 1"
             and now = "2::int" and new_id = "2::nat"]
  by (simp add: unique_passenger_trip_def request_pairs_def active_requests_def
        example_defs ledger_defs)

text \<open>
  Claim C10. The unique constraint covers requests of every status, and no operation on
  requests deletes a row or changes its trip or passenger. So once a passenger has a
  request on a trip, whatever its status and whatever happens afterwards, a further
  \<^verbatim>\<open>TripRequest.create\<close> for the pair never succeeds and writes nothing: unless the
  trip row is gone or the values do not fit their columns, so that the insert is not
  reached or not checked against the indexes, the error is the violation of
  \<^verbatim>\<open>unique_passenger_trip\<close>.
\<close>

theorem no_second_request_for_pair:
  assumes "unique_passenger_trip db"
    and "(rd_trip_id rd, rd_passenger_id rd) \<in> set (request_pairs db)"
    and "new_id \<notin> set (map r_id (trip_requests (run db ops)))"
  shows "unique_passenger_trip (run db ops)
       \<and> (rd_trip_id rd, rd_passenger_id rd) \<in> set (request_pairs (run db ops))
       \<and> snd (TripRequest_create now new_id (run db ops) rd) = run db ops
       \<and> fst (TripRequest_create now new_id (run db ops) rd)
           \<in> {Inl TripNotFound, Inl IntegerOutOfRange, Inl NumericOverflow,
               Inl (UniqueViolation ''unique_passenger_trip'')}"
  using assms
    create_pair_present[where rd = rd and db = "run db ops" and now = now and new_id = new_id]
  by (simp add: unique_passenger_trip_run request_pairs_run_mono)

text \<open>
  In \<open>rejected_db\<close> the request of passenger 2 is rejected; passenger 3 then creates a
  request and cancels it. Neither of them can create a request on the trip again.
\<close>

theorem no_second_request_witness:
  "unique_passenger_trip rejected_db
   \<and> map request_status
        (trip_requests (run rejected_db [Create 2 2 (seat_request 3 1), Cancel 3 2]))
       = [Rejected, Cancelled]
   \<and> TripRequest_create 4 3 (run rejected_db [Create 2 2 (seat_request 3 1), Cancel 3 2])
        (seat_request 2 1)
       = (Inl (UniqueViolation ''unique_passenger_trip''),
          run rejected_db [Create 2 2 (seat_request 3 1), Cancel 3 2])
   \<and> TripRequest_create 5 4 (run rejected_db [Create 2 2 (seat_request 3 1), Cancel 3 2])
        (seat_request 3 1)
       = (Inl (UniqueViolation ''unique_passenger_trip''),
          run rejected_db [Create 2 2 (seat_request 3 1), Cancel 3 2])"
  using no_second_request_for_pair
          [where db = rejected_db and rd = "seat_request 2 1" and new_id = 3
             and ops = "[Create 2 2 (seat_request 3 1), Cancel 3 2]" and now = "4::int"]
  by (simp add: unique_passenger_trip_def request_pairs_def example_defs ledger_defs)

section \<open>Deleting a stop point\<close>

lemma ordered_stops_findByRoute:
  "ordered_stops db R = zip (map sp_id (StopPoint_findByRoute db R))
                            (map int [1 ..< Suc (length (StopPoint_findByRoute db R))])"
  by (simp add: ordered_stops_def StopPoint_findByRoute_def Let_def)

lemma set_findByRoute:
  "set (StopPoint_findByRoute db R) = {s \<in> set (stop_points db). sp_route_id s = R}"
  by (auto simp: StopPoint_findByRoute_def)

lemma distinct_ids_findByRoute:
  assumes "stop_points_pkey db"
  shows "distinct (map sp_id (StopPoint_findByRoute db R))"
proof -
  have "mset (map sp_id (StopPoint_findByRoute db R))
          = mset (map sp_id (filter (\<lambda>s. sp_route_id s = R) (stop_points db)))"
    by (simp add: StopPoint_findByRoute_def)
  moreover have "distinct (map sp_id (filter (\<lambda>s. sp_route_id s = R) (stop_points db)))"
    using assms by (simp add: stop_points_pkey_def distinct_map_filter)
  ultimately show ?thesis
    by (metis mset_eq_imp_distinct_iff)
qed

lemma set_order_nth:
  assumes "stop_points_pkey db" and "i < length (StopPoint_findByRoute db R)"
  shows "set_order (ordered_stops db R) (StopPoint_findByRoute db R ! i)
           = (StopPoint_findByRoute db R ! i)\<lparr>stop_order := int (Suc i)\<rparr>"
proof -
  let ?S = "StopPoint_findByRoute db R"
  have "map_of (zip (map sp_id ?S) (map int [1 ..< Suc (length ?S)])) (map sp_id ?S ! i)
          = Some (map int [1 ..< Suc (length ?S)] ! i)"
    using assms by (intro map_of_zip_nth) (simp_all add: distinct_ids_findByRoute del: upt_Suc)
  then have "map_of (ordered_stops db R) (sp_id (?S ! i)) = Some (int (Suc i))"
    using assms(2) by (simp add: ordered_stops_findByRoute del: upt_Suc)
  then show ?thesis
    by (simp add: set_order_def)
qed

lemma set_order_other_route:
  assumes "stop_points_pkey db" and "s \<in> set (stop_points db)" and "sp_route_id s \<noteq> R"
  shows "set_order (ordered_stops db R) s = s"
proof -
  have "sp_id s \<notin> set (map sp_id (StopPoint_findByRoute db R))"
  proof
    assume "sp_id s \<in> set (map sp_id (StopPoint_findByRoute db R))"
    then obtain s' where s': "s' \<in> set (stop_points db)" "sp_route_id s' = R" "sp_id s' = sp_id s"
      by (auto simp: set_findByRoute)
    from assms(1) have "inj_on sp_id (set (stop_points db))"
      by (simp add: stop_points_pkey_def distinct_map)
    with s' assms(2) have "s' = s" by (simp add: inj_on_def)
    with s' assms(3) show False by simp
  qed
  then have "map_of (ordered_stops db R) (sp_id s) = None"
    by (simp add: ordered_stops_findByRoute map_of_zip_is_None del: upt_Suc)
  then show ?thesis by (simp add: set_order_def)
qed

lemma set_order_keeps:
  "sp_id (set_order ord s) = sp_id s" "sp_route_id (set_order ord s) = sp_route_id s"
  by (simp_all add: set_order_def split: option.split)

lemma filter_route_set_order:
  "filter (\<lambda>s. sp_route_id s = R) (map (set_order ord) rows)
     = map (set_order ord) (filter (\<lambda>s. sp_route_id s = R) rows)"
  by (induction rows) (simp_all add: set_order_keeps)

lemma orders_of_renumbered:
  assumes "stop_points_pkey db"
  shows "map stop_order (map (set_order (ordered_stops db R)) (StopPoint_findByRoute db R))
           = map int [1 ..< Suc (length (StopPoint_findByRoute db R))]"
  using assms by (intro nth_equalityI) (simp_all add: set_order_nth del: upt_Suc)

lemma sorted_map_int_upt: "sorted (map int [m ..< n])"
  by (simp add: sorted_map sorted_wrt_mono_rel[OF _ sorted_wrt_upt])

lemma inj_on_renumbered:
  assumes "stop_points_pkey db"
  shows "inj_on stop_order (set (map (set_order (ordered_stops db R)) (StopPoint_findByRoute db R)))"
proof (rule inj_onI)
  let ?S = "StopPoint_findByRoute db R"
  let ?g = "set_order (ordered_stops db R)"
  fix a b
  assume a: "a \<in> set (map ?g ?S)" and b: "b \<in> set (map ?g ?S)"
    and eq: "stop_order a = stop_order b"
  from a obtain i where i: "i < length ?S" "a = ?g (?S ! i)"
    by (auto simp: in_set_conv_nth)
  from b obtain j where j: "j < length ?S" "b = ?g (?S ! j)"
    by (auto simp: in_set_conv_nth)
  from i j eq assms have "i = j"
    by (simp add: set_order_nth)
  with i j show "a = b" by simp
qed

lemma findByRoute_after_renumbering:
  assumes "stop_points_pkey db"
  shows "StopPoint_findByRoute
           (db\<lparr>stop_points := map (set_order (ordered_stops db R)) (stop_points db)\<rparr>) R
         = map (set_order (ordered_stops db R)) (StopPoint_findByRoute db R)"
proof -
  let ?g = "set_order (ordered_stops db R)"
  let ?F = "filter (\<lambda>s. sp_route_id s = R) (stop_points db)"
  let ?S = "StopPoint_findByRoute db R"
  have m: "mset (map ?g ?F) = mset (map ?g ?S)"
    by (simp add: StopPoint_findByRoute_def)
  have "set (map ?g ?F) = set (map ?g ?S)"
    by (simp add: StopPoint_findByRoute_def)
  then have inj: "inj_on stop_order (set (map ?g ?F))"
    using inj_on_renumbered[OF assms, of R] by simp
  have srt: "sorted (map stop_order (map ?g ?S))"
    by (simp only: orders_of_renumbered[OF assms] sorted_map_int_upt)
  have "sort_key stop_order (map ?g ?F) = map ?g ?S"
    using m inj srt by (rule sort_key_inj_key_eq)
  then show ?thesis
    by (simp add: StopPoint_findByRoute_def[of "db\<lparr>stop_points := _\<rparr>"] filter_route_set_order)
qed

lemma StopPoint_findById_row:
  assumes "StopPoint_findById db sid = Some this"
  shows "sp_id this = sid \<and> this \<in> set (stop_points db)"
proof -
  from assms obtain rest where "filter (\<lambda>s. sp_id s = sid) (stop_points db) = this # rest"
    by (auto simp: StopPoint_findById_def first_row_def split: list.splits)
  then have "this \<in> set (filter (\<lambda>s. sp_id s = sid) (stop_points db))"
    by simp
  then show ?thesis by simp
qed

lemma findByRoute_after_removal:
  "StopPoint_findByRoute
     (db\<lparr>stop_points := filter (\<lambda>s. sp_id s \<noteq> sid) (stop_points db), trip_requests := X\<rparr>) R
   = filter (\<lambda>s. sp_id s \<noteq> sid) (StopPoint_findByRoute db R)"
proof -
  have "filter (\<lambda>s. sp_route_id s = R) (filter (\<lambda>s. sp_id s \<noteq> sid) (stop_points db))
          = filter (\<lambda>s. sp_id s \<noteq> sid) (filter (\<lambda>s. sp_route_id s = R) (stop_points db))"
    by (simp add: conj_commute)
  then show ?thesis
    by (simp add: StopPoint_findByRoute_def filter_sort)
qed

lemma ids_of_filtered:
  "map sp_id (filter (\<lambda>s. sp_id s \<noteq> sid) rows) = filter (\<lambda>i. i \<noteq> sid) (map sp_id rows)"
  by (induction rows) simp_all

lemma ids_of_renumbered: "map sp_id (map (set_order ord) rows) = map sp_id rows"
  by (induction rows) (simp_all add: set_order_keeps)

lemma update_stop_orders_result:
  "update_stop_orders ordered done todo = Inr rows' \<Longrightarrow>
     rows' = done @ map (set_order ordered) todo"
proof (induction todo arbitrary: "done")
  case Nil
  then show ?case by simp
next
  case (Cons s todo)
  from Cons.prems
  have "update_stop_orders ordered (done @ [set_order ordered s]) todo = Inr rows'"
    by (simp split: if_splits)
  then have "rows' = (done @ [set_order ordered s]) @ map (set_order ordered) todo"
    by (rule Cons.IH)
  then show ?case by simp
qed

lemma reorderStopPoints_result:
  assumes "reorderStopPoints db this = (Inr u, db')"
  shows "db' = db\<lparr>stop_points :=
                  map (set_order (ordered_stops db (sp_route_id this))) (stop_points db)\<rparr>"
  using assms
    update_stop_orders_result[of "ordered_stops db (sp_route_id this)" "[]" "stop_points db"]
  by (auto simp: reorderStopPoints_def split: sum.splits)

text \<open>
  When \<^verbatim>\<open>delete\<close> returns, the stops of the route, read in the order of \<^verbatim>\<open>stop_order\<close>
  as \<^verbatim>\<open>findByRoute\<close> reads them, are the stops that were there before without the
  deleted one, in the order they had, numbered 1, 2, ..., N.
\<close>

lemma delete_renumbers_when_it_succeeds:
  assumes pk: "stop_points_pkey db"
    and found: "StopPoint_findById db sid = Some this"
    and ok: "fst (StopPoint_delete now db this) = Inr r"
  shows "map sp_id (StopPoint_findByRoute (snd (StopPoint_delete now db this)) (sp_route_id this))
           = filter (\<lambda>i. i \<noteq> sid) (map sp_id (StopPoint_findByRoute db (sp_route_id this)))
       \<and> map stop_order
            (StopPoint_findByRoute (snd (StopPoint_delete now db this)) (sp_route_id this))
           = map int [1 ..< Suc (length
               (StopPoint_findByRoute (snd (StopPoint_delete now db this)) (sp_route_id this)))]"
proof -
  let ?R = "sp_route_id this"
  let ?db1 = "db\<lparr> stop_points := filter (\<lambda>s. sp_id s \<noteq> sid) (stop_points db),
                    trip_requests := map (clear_stop now sid) (trip_requests db) \<rparr>"
  let ?g = "set_order (ordered_stops ?db1 ?R)"
  let ?db2 = "?db1\<lparr>stop_points := map ?g (stop_points ?db1)\<rparr>"
  have row: "sp_id this = sid" "this \<in> set (stop_points db)"
    using StopPoint_findById_row[OF found] by simp_all
  then have ne: "filter (\<lambda>s. sp_id s = sp_id this) (stop_points db) \<noteq> []"
    by (auto simp: filter_empty_conv)
  have pk1: "stop_points_pkey ?db1"
    using pk by (simp add: stop_points_pkey_def distinct_map_filter)
  obtain res db' where re: "reorderStopPoints ?db1 this = (res, db')"
    by (cases "reorderStopPoints ?db1 this")
  with ok ne obtain u where u: "res = Inr u"
    by (cases res) (simp_all add: StopPoint_delete_def Let_def row(1))
  with re have db': "db' = ?db2"
    using reorderStopPoints_result[of ?db1 this u db'] by simp
  have del: "snd (StopPoint_delete now db this) = ?db2"
    using ne re u db' by (simp add: StopPoint_delete_def Let_def row(1))
  have route: "StopPoint_findByRoute ?db2 ?R = map ?g (StopPoint_findByRoute ?db1 ?R)"
    using findByRoute_after_renumbering[OF pk1, of ?R] by simp
  have ids: "map sp_id (StopPoint_findByRoute ?db2 ?R)
               = filter (\<lambda>i. i \<noteq> sid) (map sp_id (StopPoint_findByRoute db ?R))"
    unfolding route by (simp only: ids_of_renumbered findByRoute_after_removal ids_of_filtered)
  have orders: "map stop_order (StopPoint_findByRoute ?db2 ?R)
               = map int [1 ..< Suc (length (StopPoint_findByRoute ?db2 ?R))]"
    unfolding route using orders_of_renumbered[OF pk1, of ?R] by (simp del: upt_Suc)
  from ids orders show ?thesis
    unfolding del by (simp only: simp_thms)
qed

lemmas stop_defs = stop_points_pkey_def unique_route_stop_order_def StopPoint_findById_def
  StopPoint_findByRoute_def StopPoint_delete_def reorderStopPoints_def ordered_stops_def
  set_order_def clear_stop_def first_row_def Let_def

text \<open>
  The route of \<open>example_db\<close> has stops numbered 1, 2, 3, 4, stored in that order; deleting
  the second one leaves the other three numbered 1, 2, 3.
\<close>

lemma delete_second_of_four_stops:
  "StopPoint_findById example_db 20 = Some (example_stop 20 2)
   \<and> fst (StopPoint_delete 7 example_db (example_stop 20 2)) = Inr (example_stop 20 2)
   \<and> StopPoint_findByRoute (snd (StopPoint_delete 7 example_db (example_stop 20 2))) 1
       = [example_stop 10 1, example_stop 30 2, example_stop 40 3]"
  by (simp add: stop_defs example_defs)

text \<open>
  Claim C5. After every deletion of a stop, the remaining stops of the route are numbered
  1, 2, ..., N in the order they had before.

  \<^verbatim>\<open>delete\<close> means to do so (\<^verbatim>\<open>// Reorder remaining stop points\<close>), in a second statement
  after the \<^verbatim>\<open>DELETE\<close>. That \<^verbatim>\<open>UPDATE\<close> moves the rows one at a time under a constraint
  that is checked at once. The route of \<open>zero_based_db\<close> has stops numbered 0, 1, 2 and
  satisfies the constraints of the schema. Its last stop is deleted; the renumbering
  starts by moving the first stop from 0 to 1, where the second stop still is, and fails.
  \<^verbatim>\<open>delete\<close> throws, the stop is gone, and the two others are left numbered 0, 1.
\<close>

theorem delete_leaves_stops_unnumbered:
  "stop_points_pkey zero_based_db \<and> unique_route_stop_order zero_based_db
   \<and> StopPoint_findById zero_based_db 30 = Some (example_stop 30 2)
   \<and> StopPoint_delete 7 zero_based_db (example_stop 30 2)
       = (Inl (UniqueViolation ''unique_route_stop_order''),
          zero_based_db\<lparr>stop_points := [example_stop 10 0, example_stop 20 1]\<rparr>)"
  by (simp add: stop_defs example_defs)

end
